theory Spec2Isabelle
  imports Complex_Main
begin

section \<open>Endpoint resolver\<close>

text \<open>
  The resolver of the OAuth server: \<^verbatim>\<open>probeUrl\<close> and \<^verbatim>\<open>resolveEndpoint\<close>.
  JavaScript strings are modelled as \<^typ>\<open>string\<close> (code units below 256), dictionaries as
  maps on their own keys. The global state the functions read and write is passed
  explicitly: the table \<^verbatim>\<open>ENDPOINT_CANDIDATES\<close>, \<^verbatim>\<open>process.env\<close>, the cache
  \<^verbatim>\<open>resolved\<close> and the network. The requests a call issues are returned as a list, in
  the order in which they are issued.
\<close>

datatype http_method = HEAD | GET

text \<open>
  What \<^verbatim>\<open>timeoutFetch\<close> gives for one request: the promise rejects (network failure,
  or the abort after the timeout), or it resolves to a response with a status.
\<close>

datatype fetch_outcome = Rejected | Status nat

type_synonym request = "http_method \<times> string"

text \<open>
  The network as one call of \<^verbatim>\<open>resolveEndpoint\<close> sees it: the outcome of each request
  (a call issues a request twice only when the list has a candidate twice). Different
  calls may see different networks.
\<close>

type_synonym network = "http_method \<Rightarrow> string \<Rightarrow> fetch_outcome"

text \<open>\<^verbatim>\<open>res && res.status && res.status < 500\<close>: a status of 0 is falsy.\<close>

fun ok_response :: "fetch_outcome \<Rightarrow> bool" where
  "ok_response Rejected = False"
| "ok_response (Status s) = (s \<noteq> 0 \<and> s < 500)"

text \<open>
  \<^verbatim>\<open>probeUrl\<close>: the GET request is issued only in the \<^verbatim>\<open>catch\<close> block of the HEAD
  request, that is when the HEAD request was rejected. The function never throws.
\<close>

definition probeUrl :: "network \<Rightarrow> string \<Rightarrow> bool \<times> request list" where
  "probeUrl net url =
     (case net HEAD url of
        Status s \<Rightarrow> (ok_response (Status s), [(HEAD, url)])
      | Rejected \<Rightarrow>
          (case net GET url of
             Status s2 \<Rightarrow> (ok_response (Status s2), [(HEAD, url), (GET, url)])
           | Rejected \<Rightarrow> (False, [(HEAD, url), (GET, url)])))"

text \<open>The allowlist of candidate endpoints, as the source declares it.\<close>

definition ENDPOINT_CANDIDATES :: "string \<rightharpoonup> string list" where
  "ENDPOINT_CANDIDATES =
     [''authorize'' \<mapsto>
        [''https://authorize.roblox.com/oauth/authorize'',
         ''https://www.roblox.com/oauth/authorize'',
         ''https://apis.roblox.com/oauth/v1/authorize''],
      ''token'' \<mapsto>
        [''https://authorize.roblox.com/oauth/token'',
         ''https://www.roblox.com/oauth/token'',
         ''https://apis.roblox.com/oauth/v1/token''],
      ''userinfo'' \<mapsto>
        [''https://authorize.roblox.com/oauth/v1/userinfo'',
         ''https://www.roblox.com/oauth/userinfo'',
         ''https://apis.roblox.com/oauth/v1/userinfo'']]"

definition envKey :: "string \<Rightarrow> string" where
  "envKey name =
     (if name = ''authorize'' then ''OAUTH_AUTHORIZE_URL''
      else if name = ''token'' then ''OAUTH_TOKEN_URL''
      else ''OAUTH_USERINFO_URL'')"

text \<open>
  \<^verbatim>\<open>if (m[k])\<close> on a dictionary of strings: the entry counts only when it is a non-empty
  string.
\<close>

definition truthy_entry :: "(string \<rightharpoonup> string) \<Rightarrow> string \<Rightarrow> string option" where
  "truthy_entry m k = (case m k of None \<Rightarrow> None | Some v \<Rightarrow> if v = [] then None else Some v)"

definition override :: "(string \<rightharpoonup> string) \<Rightarrow> string \<Rightarrow> string option" where
  "override env name = truthy_entry env (envKey name)"

text \<open>\<^verbatim>\<open>ENDPOINT_CANDIDATES[name] || []\<close>\<close>

definition candidates :: "(string \<rightharpoonup> string list) \<Rightarrow> string \<Rightarrow> string list" where
  "candidates table name = (case table name of None \<Rightarrow> [] | Some list \<Rightarrow> list)"

text \<open>
  The \<^verbatim>\<open>for\<close> loop of \<^verbatim>\<open>resolveEndpoint\<close>: the first candidate whose probe is true, and
  the requests issued until then.
\<close>

fun probe_loop :: "network \<Rightarrow> string list \<Rightarrow> string option \<times> request list" where
  "probe_loop net [] = (None, [])"
| "probe_loop net (candidate # rest) =
     (case probeUrl net candidate of
        (ok, reqs) \<Rightarrow>
          if ok then (Some candidate, reqs)
          else (case probe_loop net rest of (found, reqs') \<Rightarrow> (found, reqs @ reqs')))"

datatype resolve_error = NoCandidates string

record resolution =
  result :: "resolve_error + string"
  resolved :: "string \<rightharpoonup> string"
  probes :: "request list"

definition resolveEndpoint ::
  "(string \<rightharpoonup> string list) \<Rightarrow> (string \<rightharpoonup> string) \<Rightarrow> network \<Rightarrow> (string \<rightharpoonup> string)
     \<Rightarrow> string \<Rightarrow> resolution" where
  "resolveEndpoint table env net cache name =
     (case override env name of
        Some v \<Rightarrow> \<lparr>result = Inr v, resolved = cache(name \<mapsto> v), probes = []\<rparr>
      | None \<Rightarrow>
          (case truthy_entry cache name of
             Some v \<Rightarrow> \<lparr>result = Inr v, resolved = cache, probes = []\<rparr>
           | None \<Rightarrow>
               (let list = candidates table name in
                case probe_loop net list of
                  (Some candidate, reqs) \<Rightarrow>
                    \<lparr>result = Inr candidate, resolved = cache(name \<mapsto> candidate), probes = reqs\<rparr>
                | (None, reqs) \<Rightarrow>
                    (case list of
                       first # _ \<Rightarrow>
                         if first \<noteq> []
                         then \<lparr>result = Inr first, resolved = cache(name \<mapsto> first), probes = reqs\<rparr>
                         else \<lparr>result = Inl (NoCandidates name), resolved = cache, probes = reqs\<rparr>
                     | [] \<Rightarrow> \<lparr>result = Inl (NoCandidates name), resolved = cache, probes = reqs\<rparr>))))"

text \<open>
  A process run: calls of \<^verbatim>\<open>resolveEndpoint\<close> one after the other, each with its
  operation name and the network it meets, on the cache the previous call left.
\<close>

fun resolve_run ::
  "(string \<rightharpoonup> string list) \<Rightarrow> (string \<rightharpoonup> string) \<Rightarrow> (string \<rightharpoonup> string)
     \<Rightarrow> (network \<times> string) list \<Rightarrow> (string \<rightharpoonup> string)" where
  "resolve_run table env cache [] = cache"
| "resolve_run table env cache ((net, name) # calls) =
     resolve_run table env (resolved (resolveEndpoint table env net cache name)) calls"

text \<open>Candidate URLs are non-empty strings.\<close>

definition urls_nonempty :: "(string \<rightharpoonup> string list) \<Rightarrow> string \<Rightarrow> bool" where
  "urls_nonempty table name = ([] \<notin> set (candidates table name))"

text \<open>Two networks used in the examples: nothing answers; only one host answers.\<close>

definition net_down :: network where
  "net_down m url = Rejected"

definition net_www :: network where
  "net_www m url =
     (if url = ''https://www.roblox.com/oauth/authorize''
      then (if m = HEAD then Rejected else Status 404)
      else Rejected)"


definition env_override :: "string \<rightharpoonup> string" where
  "env_override = [''OAUTH_AUTHORIZE_URL'' \<mapsto> ''https://id.example/authorize'']"

section \<open>Games aggregator\<close>

text \<open>
  The handler of \<^verbatim>\<open>/api/games\<close>. Upstream payloads are the values \<^verbatim>\<open>res.json()\<close> gives;
  \<open>JUndefined\<close> is what reading a missing property gives and never occurs in a payload.
  Numbers are the finite values of a payload. An object is the list of its own
  properties, each key once.
\<close>

datatype json =
    JUndefined
  | JNull
  | JBool bool
  | JNum real
  | JStr string
  | JArr "json list"
  | JObj "(string \<times> json) list"

fun truthy :: "json \<Rightarrow> bool" where
  "truthy JUndefined = False"
| "truthy JNull = False"
| "truthy (JBool b) = b"
| "truthy (JNum x) = (x \<noteq> 0)"
| "truthy (JStr s) = (s \<noteq> [])"
| "truthy (JArr xs) = True"
| "truthy (JObj props) = True"

text \<open>\<^verbatim>\<open>a || b\<close> and \<^verbatim>\<open>a && b\<close> on values.\<close>

definition js_or :: "json \<Rightarrow> json \<Rightarrow> json" where
  "js_or a b = (if truthy a then a else b)"

definition js_and :: "json \<Rightarrow> json \<Rightarrow> json" where
  "js_and a b = (if truthy a then b else a)"

fun nullish :: "json \<Rightarrow> bool" where
  "nullish JUndefined = True"
| "nullish JNull = True"
| "nullish v = False"

text \<open>
  \<^verbatim>\<open>v.k\<close> for a value that is neither \<^verbatim>\<open>null\<close> nor \<^verbatim>\<open>undefined\<close> (on those the read
  throws a TypeError, which the callers below model), for the property names the handler
  reads: none of them is defined on an array, a string, a number or a boolean.
\<close>

fun get_prop :: "json \<Rightarrow> string \<Rightarrow> json" where
  "get_prop (JObj props) k = (case map_of props k of None \<Rightarrow> JUndefined | Some v \<Rightarrow> v)"
| "get_prop v k = JUndefined"

text \<open>\<^verbatim>\<open>v?.k\<close> and \<^verbatim>\<open>v?.[0]\<close>\<close>

definition opt_prop :: "json \<Rightarrow> string \<Rightarrow> json" where
  "opt_prop v k = (if nullish v then JUndefined else get_prop v k)"

fun opt_index0 :: "json \<Rightarrow> json" where
  "opt_index0 (JArr (x # xs)) = x"
| "opt_index0 (JObj props) = get_prop (JObj props) ''0''"
| "opt_index0 (JStr (c # cs)) = JStr [c]"
| "opt_index0 v = JUndefined"

datatype js_error = TypeError | FetchError

record game =
  game_id :: json
  game_name :: json
  creator :: json
  thumbnail :: json
  playing :: json
  visits :: json

text \<open>The three object literals that build a record from an upstream game \<open>g\<close>.\<close>

definition list_game :: "json \<Rightarrow> game" where
  "list_game g =
     \<lparr>game_id = js_or (js_or (js_or (get_prop g ''id'') (get_prop g ''universeId''))
                   (get_prop g ''placeId'')) (get_prop g ''assetId''),
      game_name = js_or (js_or (get_prop g ''name'') (get_prop g ''title'')) (JStr []),
      creator = js_or (js_or (js_and (get_prop g ''creator'')
                                     (get_prop (get_prop g ''creator'') ''name''))
                             (get_prop g ''creatorName'')) (JStr ''Unknown''),
      thumbnail = js_or (js_or (get_prop g ''iconUrl'') (get_prop g ''thumbnailUrl'')) JNull,
      playing = js_or (js_or (get_prop g ''playing'') (get_prop g ''currentPlayers'')) JNull,
      visits = js_or (get_prop g ''visits'') JNull\<rparr>"

definition sort_game :: "json \<Rightarrow> game" where
  "sort_game g =
     \<lparr>game_id = js_or (get_prop g ''id'') (get_prop g ''universeId''),
      game_name = get_prop g ''name'',
      creator = js_or (opt_prop (get_prop g ''creator'') ''name'') (JStr ''Unknown''),
      thumbnail = js_or (get_prop g ''iconUrl'') JNull,
      playing = js_or (get_prop g ''playing'') JNull,
      visits = js_or (get_prop g ''visits'') JNull\<rparr>"

definition universe_game :: "json \<Rightarrow> game" where
  "universe_game g =
     \<lparr>game_id = get_prop g ''id'',
      game_name = get_prop g ''name'',
      creator = js_or (opt_prop (get_prop g ''creator'') ''name'') (JStr ''Unknown''),
      thumbnail = js_or (get_prop g ''iconUrl'') JNull,
      playing = js_or (get_prop g ''playing'') JNull,
      visits = js_or (get_prop g ''visits'') JNull\<rparr>"

text \<open>
  The callback of \<^verbatim>\<open>.map\<close> applied to one element: reading \<^verbatim>\<open>g.id\<close> throws when the
  element is \<^verbatim>\<open>null\<close>.
\<close>

definition map_callback :: "(json \<Rightarrow> game) \<Rightarrow> json \<Rightarrow> js_error + game" where
  "map_callback build g = (if nullish g then Inl TypeError else Inr (build g))"

fun map_games :: "(json \<Rightarrow> game) \<Rightarrow> json list \<Rightarrow> js_error + game list" where
  "map_games build [] = Inr []"
| "map_games build (g # gs) =
     (case map_callback build g of
        Inl e \<Rightarrow> Inl e
      | Inr x \<Rightarrow> (case map_games build gs of Inl e \<Rightarrow> Inl e | Inr xs \<Rightarrow> Inr (x # xs)))"

text \<open>
  \<^verbatim>\<open>if (Array.isArray(r.data) && r.data.length) games = r.data.map(...)\<close>: the new value
  of \<^verbatim>\<open>games\<close>, or the exception thrown.
\<close>

definition assign_games :: "(json \<Rightarrow> game) \<Rightarrow> json \<Rightarrow> game list \<Rightarrow> js_error + game list" where
  "assign_games build r games =
     (if nullish r then Inl TypeError
      else case get_prop r ''data'' of
             JArr (g # gs) \<Rightarrow> map_games build (g # gs)
           | _ \<Rightarrow> Inr games)"

text \<open>\<^verbatim>\<open>try { ... } catch (e) { console.warn(...) }\<close>: after an exception \<^verbatim>\<open>games\<close> is unchanged.\<close>

definition caught :: "game list \<Rightarrow> js_error + game list \<Rightarrow> game list" where
  "caught games r = (case r of Inl e \<Rightarrow> games | Inr games' \<Rightarrow> games')"

text \<open>
  The upstream calls, by the URL \<^verbatim>\<open>fetchJson\<close> is given:
  \<^verbatim>\<open>games/list?keyword=q&limit=n\<close>, \<^verbatim>\<open>games/sorts\<close>, \<^verbatim>\<open>games?sortToken=t&limit=n\<close>,
  \<^verbatim>\<open>games/multiget-place-details?placeIds=q\<close>, \<^verbatim>\<open>games?universeIds=u\<close>.
  The upstream gives a parsed body, or \<open>None\<close> when \<^verbatim>\<open>fetchJson\<close> throws (no response,
  timeout, a status that is not ok, a body that does not parse).
\<close>

datatype api_request =
    GamesList string real
  | GamesSorts
  | GamesBySort json real
  | PlaceDetails string
  | GamesByUniverse json

type_synonym upstream = "api_request \<Rightarrow> json option"

text \<open>The statements inside the \<^verbatim>\<open>try\<close> block of each strategy, with the calls issued.\<close>

definition strategy1_body ::
  "upstream \<Rightarrow> string \<Rightarrow> real \<Rightarrow> game list \<Rightarrow> (js_error + game list) \<times> api_request list" where
  "strategy1_body up q limit games =
     (case up (GamesList q limit) of
        None \<Rightarrow> (Inl FetchError, [GamesList q limit])
      | Some r \<Rightarrow> (assign_games list_game r games, [GamesList q limit]))"

definition strategy2_body ::
  "upstream \<Rightarrow> real \<Rightarrow> game list \<Rightarrow> (js_error + game list) \<times> api_request list" where
  "strategy2_body up limit games =
     (case up GamesSorts of
        None \<Rightarrow> (Inl FetchError, [GamesSorts])
      | Some sorts \<Rightarrow>
          (let token = opt_prop (opt_index0 (opt_prop sorts ''sorts'')) ''token'' in
           if truthy token
           then (case up (GamesBySort token limit) of
                   None \<Rightarrow> (Inl FetchError, [GamesSorts, GamesBySort token limit])
                 | Some list \<Rightarrow>
                     (assign_games sort_game list games, [GamesSorts, GamesBySort token limit]))
           else (Inr games, [GamesSorts])))"

definition strategy3_body ::
  "upstream \<Rightarrow> string \<Rightarrow> game list \<Rightarrow> (js_error + game list) \<times> api_request list" where
  "strategy3_body up q games =
     (case up (PlaceDetails q) of
        None \<Rightarrow> (Inl FetchError, [PlaceDetails q])
      | Some details \<Rightarrow>
          (case details of
             JArr (place # rest) \<Rightarrow>
               if truthy place \<and> truthy (get_prop place ''universeId'')
               then (case up (GamesByUniverse (get_prop place ''universeId'')) of
                       None \<Rightarrow>
                         (Inl FetchError,
                          [PlaceDetails q, GamesByUniverse (get_prop place ''universeId'')])
                     | Some byUniverse \<Rightarrow>
                         (assign_games universe_game byUniverse games,
                          [PlaceDetails q, GamesByUniverse (get_prop place ''universeId'')]))
               else (Inr games, [PlaceDetails q])
           | _ \<Rightarrow> (Inr games, [PlaceDetails q])))"

definition strategy1 ::
  "upstream \<Rightarrow> string \<Rightarrow> real \<Rightarrow> game list \<Rightarrow> game list \<times> api_request list" where
  "strategy1 up q limit games =
     (case strategy1_body up q limit games of (r, calls) \<Rightarrow> (caught games r, calls))"

definition strategy2 :: "upstream \<Rightarrow> real \<Rightarrow> game list \<Rightarrow> game list \<times> api_request list" where
  "strategy2 up limit games =
     (case strategy2_body up limit games of (r, calls) \<Rightarrow> (caught games r, calls))"

definition strategy3 :: "upstream \<Rightarrow> string \<Rightarrow> game list \<Rightarrow> game list \<times> api_request list" where
  "strategy3 up q games =
     (case strategy3_body up q games of (r, calls) \<Rightarrow> (caught games r, calls))"

text \<open>
  \<^verbatim>\<open>Math.min(Number(req.query.limit) || 25, 100)\<close>, from the value of
  \<^verbatim>\<open>Number(req.query.limit)\<close> (\<open>None\<close> for NaN).
\<close>

definition limit_of :: "real option \<Rightarrow> real" where
  "limit_of n = min (case n of None \<Rightarrow> 25 | Some x \<Rightarrow> if x = 0 then 25 else x) 100"

text \<open>\<^verbatim>\<open>String.prototype.trim\<close> on code units below 256.\<close>

definition is_space :: "char \<Rightarrow> bool" where
  "is_space c =
     (c \<in> set [CHR 0x09, CHR 0x0A, CHR 0x0B, CHR 0x0C, CHR 0x0D, CHR 0x20, CHR 0xA0])"

definition trim :: "string \<Rightarrow> string" where
  "trim s = rev (dropWhile is_space (rev (dropWhile is_space s)))"

text \<open>\<^verbatim>\<open>(req.query.query || '').trim()\<close>, from the parameter (\<open>None\<close> when it is not given).\<close>

definition query_of :: "string option \<Rightarrow> string" where
  "query_of p = trim (case p of None \<Rightarrow> [] | Some s \<Rightarrow> s)"

text \<open>\<^verbatim>\<open>/^\d+$/.test(q)\<close>\<close>

definition is_digit :: "char \<Rightarrow> bool" where
  "is_digit c = (c \<in> set ''0123456789'')"

definition digits_only :: "string \<Rightarrow> bool" where
  "digits_only q = (q \<noteq> [] \<and> list_all is_digit q)"

record games_response =
  res_status :: nat
  res_query :: string
  res_limit :: real
  res_data :: "game list"
  res_error :: "string option"

text \<open>The value of \<^verbatim>\<open>games\<close> after the first two strategies, and the calls issued.\<close>

definition first_two :: "upstream \<Rightarrow> string \<Rightarrow> real \<Rightarrow> game list \<times> api_request list" where
  "first_two up q limit =
     (case strategy1 up q limit [] of
        (games1, calls1) \<Rightarrow>
          if games1 = []
          then (case strategy2 up limit games1 of (games2, calls2) \<Rightarrow> (games2, calls1 @ calls2))
          else (games1, calls1))"

text \<open>
  The handler. No statement of the outer \<^verbatim>\<open>try\<close> block outside the three inner ones
  throws, so the response of the outer \<^verbatim>\<open>catch\<close> (status 500, an \<^verbatim>\<open>error\<close> field) is
  never sent.
\<close>

definition api_games ::
  "upstream \<Rightarrow> real option \<Rightarrow> string option \<Rightarrow> games_response \<times> api_request list" where
  "api_games up limit_param query_param =
     (let limit = limit_of limit_param; q = query_of query_param in
      case first_two up q limit of
        (games2, calls2) \<Rightarrow>
          (case (if games2 = [] \<and> q \<noteq> [] \<and> digits_only q
                 then strategy3 up q games2 else (games2, [])) of
             (games3, calls3) \<Rightarrow>
               (\<lparr>res_status = 200, res_query = q, res_limit = limit, res_data = games3,
                 res_error = None\<rparr>,
                calls2 @ calls3)))"

text \<open>
  The value a canonical field gets from its ordered aliases, in the words of the
  specification, with a falsy value counted as missing: the first alias that is truthy,
  or else the default.
\<close>

fun first_truthy :: "json list \<Rightarrow> json \<Rightarrow> json" where
  "first_truthy [] d = d"
| "first_truthy (a # as) d = (if truthy a then a else first_truthy as d)"

text \<open>A strategy failed or returned nothing: its block threw, or left an empty list.\<close>

fun failed_or_empty :: "js_error + game list \<Rightarrow> bool" where
  "failed_or_empty (Inl e) = True"
| "failed_or_empty (Inr games) = (games = [])"

text \<open>
  Upstreams used in the examples: every call fails; the list endpoint answers with two
  games; the list endpoint answers with one game that has no identifier; only the lookup
  of place 123 and the listing of its universe 9 answer.
\<close>

definition up_down :: upstream where
  "up_down req = None"

fun up_list :: upstream where
  "up_list (GamesList q n) =
     Some (JObj [(''data'', JArr
       [JObj [(''id'', JNum 7), (''name'', JStr ''Seven''), (''playing'', JNum 12)],
        JObj [(''universeId'', JNum 8), (''title'', JStr ''Eight''),
              (''creator'', JObj [(''name'', JStr ''Ann'')])]])])"
| "up_list req = None"


fun up_place :: upstream where
  "up_place (PlaceDetails q) =
     (if q = ''123'' then Some (JArr [JObj [(''universeId'', JNum 9)]]) else None)"
| "up_place (GamesByUniverse u) =
     (if u = JNum 9
      then Some (JObj [(''data'', JArr [JObj [(''id'', JNum 9), (''name'', JStr ''Test'')]])])
      else None)"
| "up_place req = None"


text \<open>An upstream whose list endpoint answers with a list that has an element \<^verbatim>\<open>null\<close>.\<close>

fun up_null :: upstream where
  "up_null (GamesList q n) = Some (JObj [(''data'', JArr [JObj [(''id'', JNum 1)], JNull])])"
| "up_null req = None"

text \<open>A game whose count and creator name are falsy under the first alias only.\<close>

definition game_two_aliases :: json where
  "game_two_aliases =
     JObj [(''id'', JNum 5), (''playing'', JNum 0), (''currentPlayers'', JNum 7),
           (''creator'', JObj [(''name'', JStr [])]), (''creatorName'', JStr ''Bob'')]"

section \<open>Properties of the resolver\<close>

lemma probeUrl_fst:
  "fst (probeUrl net url) \<longleftrightarrow>
     (\<exists>s. net HEAD url = Status s \<and> 0 < s \<and> s < 500) \<or>
     (net HEAD url = Rejected \<and> (\<exists>s. net GET url = Status s \<and> 0 < s \<and> s < 500))"
  by (auto simp: probeUrl_def split: fetch_outcome.splits)

lemma probeUrl_snd:
  "snd (probeUrl net url) = (HEAD, url) # (if net HEAD url = Rejected then [(GET, url)] else [])"
  by (auto simp: probeUrl_def split: fetch_outcome.splits)

lemma probe_loop_none:
  "\<forall>x\<in>set xs. \<not> fst (probeUrl net x) \<Longrightarrow>
   probe_loop net xs = (None, concat (map (\<lambda>x. snd (probeUrl net x)) xs))"
  by (induction xs) (auto split: prod.splits)

lemma probe_loop_first:
  "\<forall>x\<in>set pre. \<not> fst (probeUrl net x) \<Longrightarrow> fst (probeUrl net c) \<Longrightarrow>
   probe_loop net (pre @ c # post) =
     (Some c, concat (map (\<lambda>x. snd (probeUrl net x)) (pre @ [c])))"
  by (induction pre) (auto split: prod.splits)

lemma probe_loop_found_mem:
  "probe_loop net xs = (Some c, reqs) \<Longrightarrow> c \<in> set xs"
  by (induction xs arbitrary: reqs) (auto split: prod.splits if_splits)

lemma truthy_entry_Some: "truthy_entry m k = Some v \<longleftrightarrow> m k = Some v \<and> v \<noteq> []"
  by (auto simp: truthy_entry_def split: option.splits)

lemma override_const: "override env name = Some v \<Longrightarrow> v \<noteq> []"
  by (simp add: override_def truthy_entry_Some)

lemma resolve_override:
  "override env name = Some v \<Longrightarrow>
   resolveEndpoint table env net cache name =
     \<lparr>result = Inr v, resolved = cache(name \<mapsto> v), probes = []\<rparr>"
  by (simp add: resolveEndpoint_def)

lemma resolve_cached:
  "override env name = None \<Longrightarrow> cache name = Some v \<Longrightarrow> v \<noteq> [] \<Longrightarrow>
   resolveEndpoint table env net cache name =
     \<lparr>result = Inr v, resolved = cache, probes = []\<rparr>"
  by (simp add: resolveEndpoint_def truthy_entry_def)

lemma resolve_other_key:
  "name' \<noteq> name \<Longrightarrow> resolved (resolveEndpoint table env net cache name') name = cache name"
  by (auto simp: resolveEndpoint_def Let_def split: option.splits prod.splits list.splits)

lemma truthy_entry_None: "truthy_entry m k = None \<longleftrightarrow> (\<forall>v. m k = Some v \<longrightarrow> v = [])"
  by (auto simp: truthy_entry_def split: option.splits)

lemma resolve_probing:
  "override env name = None \<Longrightarrow> truthy_entry cache name = None \<Longrightarrow>
   resolveEndpoint table env net cache name =
     (case probe_loop net (candidates table name) of
        (Some candidate, reqs) \<Rightarrow>
          \<lparr>result = Inr candidate, resolved = cache(name \<mapsto> candidate), probes = reqs\<rparr>
      | (None, reqs) \<Rightarrow>
          (case candidates table name of
             first # _ \<Rightarrow>
               if first \<noteq> []
               then \<lparr>result = Inr first, resolved = cache(name \<mapsto> first), probes = reqs\<rparr>
               else \<lparr>result = Inl (NoCandidates name), resolved = cache, probes = reqs\<rparr>
           | [] \<Rightarrow> \<lparr>result = Inl (NoCandidates name), resolved = cache, probes = reqs\<rparr>))"
  by (simp add: resolveEndpoint_def Let_def)

lemma resolve_success_cached:
  assumes nonempty: "urls_nonempty table name"
    and ok: "result (resolveEndpoint table env net cache name) = Inr u"
  shows "resolved (resolveEndpoint table env net cache name) name = Some u \<and> u \<noteq> []
     \<and> (\<forall>v. override env name = Some v \<longrightarrow> v = u)"
proof (cases "override env name")
  case (Some v)
  with ok show ?thesis
    by (simp add: resolve_override override_const)
next
  case None
  note no_override = this
  show ?thesis
  proof (cases "truthy_entry cache name")
    case (Some v)
    then have "cache name = Some v" "v \<noteq> []"
      by (simp_all add: truthy_entry_Some)
    with ok no_override show ?thesis
      by (simp add: resolve_cached)
  next
    case None
    obtain found reqs where loop: "probe_loop net (candidates table name) = (found, reqs)"
      by (cases "probe_loop net (candidates table name)")
    show ?thesis
    proof (cases found)
      case (Some c)
      with loop have "c \<in> set (candidates table name)"
        by (auto dest: probe_loop_found_mem)
      with nonempty have "c \<noteq> []"
        by (auto simp: urls_nonempty_def)
      with ok loop Some no_override None show ?thesis
        by (simp add: resolve_probing)
    next
      case no_found: None
      with ok loop no_override None show ?thesis
        by (auto simp: resolve_probing split: list.splits if_splits)
    qed
  qed
qed

lemma resolve_keeps_entry:
  assumes "cache name = Some u" "u \<noteq> []" "\<forall>v. override env name = Some v \<longrightarrow> v = u"
  shows "resolved (resolveEndpoint table env net cache name') name = Some u"
proof (cases "name' = name")
  case False
  with assms show ?thesis by (simp add: resolve_other_key)
next
  case True
  show ?thesis
  proof (cases "override env name")
    case (Some v)
    with assms True show ?thesis by (simp add: resolve_override)
  next
    case None
    with assms True show ?thesis by (simp add: resolve_cached)
  qed
qed

lemma resolve_run_keeps_entry:
  "cache name = Some u \<Longrightarrow> u \<noteq> [] \<Longrightarrow> \<forall>v. override env name = Some v \<longrightarrow> v = u \<Longrightarrow>
   resolve_run table env cache calls name = Some u"
proof (induction calls arbitrary: cache)
  case Nil
  then show ?case by simp
next
  case (Cons call calls)
  obtain net name' where call: "call = (net, name')" by (cases call)
  from Cons.prems have "resolved (resolveEndpoint table env net cache name') name = Some u"
    by (rule resolve_keeps_entry)
  with Cons.IH Cons.prems(2,3) call show ?case by simp
qed

lemma resolve_hit:
  assumes "cache name = Some u" "u \<noteq> []" "\<forall>v. override env name = Some v \<longrightarrow> v = u"
  shows "resolveEndpoint table env net cache name =
    \<lparr>result = Inr u, resolved = cache, probes = []\<rparr>"
proof (cases "override env name")
  case (Some v)
  with assms have "v = u" by simp
  moreover from assms(1) have "cache(name \<mapsto> u) = cache" by (rule map_upd_triv)
  ultimately show ?thesis using Some by (simp add: resolve_override)
next
  case None
  with assms show ?thesis by (simp add: resolve_cached)
qed

text \<open>
  Claim C1. \<^verbatim>\<open>resolveEndpoint\<close> is memoized for the run of the process. When the operation
  has an override in the environment (a non-empty value under its key), the call returns
  the override, stores it in the cache and issues no request. And once a call for an
  operation has returned a URL \<open>u\<close>, by the override, the cache or the probing, then after
  any further calls, for any operations and whatever the network does, a call for that
  operation returns \<open>u\<close> again, leaves the cache as it is and issues no request. The
  candidate URLs of the operation are non-empty strings, as all those of
  \<^verbatim>\<open>ENDPOINT_CANDIDATES\<close> are.
\<close>

theorem resolve_memoized:
  "(override env name = Some v \<longrightarrow>
      resolveEndpoint table env net cache name =
        \<lparr>result = Inr v, resolved = cache(name \<mapsto> v), probes = []\<rparr>) \<and>
   (urls_nonempty table name \<longrightarrow>
    result (resolveEndpoint table env net cache name) = Inr u \<longrightarrow>
      resolveEndpoint table env net'
          (resolve_run table env (resolved (resolveEndpoint table env net cache name)) calls) name =
        \<lparr>result = Inr u,
         resolved = resolve_run table env (resolved (resolveEndpoint table env net cache name)) calls,
         probes = []\<rparr>)"
proof (intro conjI impI)
  assume "override env name = Some v"
  then show "resolveEndpoint table env net cache name =
      \<lparr>result = Inr v, resolved = cache(name \<mapsto> v), probes = []\<rparr>"
    by (rule resolve_override)
next
  let ?first = "resolved (resolveEndpoint table env net cache name)"
  assume "urls_nonempty table name"
    and "result (resolveEndpoint table env net cache name) = Inr u"
  then have first: "?first name = Some u \<and> u \<noteq> [] \<and> (\<forall>v. override env name = Some v \<longrightarrow> v = u)"
    by (rule resolve_success_cached)
  then have "resolve_run table env ?first calls name = Some u"
    by (simp add: resolve_run_keeps_entry)
  with first show "resolveEndpoint table env net' (resolve_run table env ?first calls) name =
      \<lparr>result = Inr u, resolved = resolve_run table env ?first calls, probes = []\<rparr>"
    by (simp add: resolve_hit)
qed


text \<open>
  Claim C2. With no override and no cached resolution, \<^verbatim>\<open>resolveEndpoint\<close> probes the
  candidates in the order of the list and returns, and caches, the first one whose probe
  is true: the requests issued are those of the probes of the candidates before it and of
  its own probe, so no candidate after it is probed. A probe is true exactly when the HEAD
  request gets a response with a status below 500 (and not 0: a client error counts as
  reachable), or the HEAD request is rejected and the GET request, issued once and only
  then, gets such a response.
\<close>

theorem resolve_first_reachable:
  assumes "override env name = None" and "truthy_entry cache name = None"
    and "candidates table name = pre @ c # post"
    and "\<forall>x\<in>set pre. \<not> fst (probeUrl net x)" and "fst (probeUrl net c)"
  shows "resolveEndpoint table env net cache name =
      \<lparr>result = Inr c, resolved = cache(name \<mapsto> c),
       probes = concat (map (\<lambda>x. snd (probeUrl net x)) (pre @ [c]))\<rparr>
    \<and> snd ` set (probes (resolveEndpoint table env net cache name)) = set pre \<union> {c}
    \<and> (\<forall>x. fst (probeUrl net x) \<longleftrightarrow>
          (\<exists>s. net HEAD x = Status s \<and> 0 < s \<and> s < 500) \<or>
          (net HEAD x = Rejected \<and> (\<exists>s. net GET x = Status s \<and> 0 < s \<and> s < 500)))
    \<and> (\<forall>x. snd (probeUrl net x) =
          (HEAD, x) # (if net HEAD x = Rejected then [(GET, x)] else []))"
proof -
  from assms(4,5) have "probe_loop net (pre @ c # post) =
      (Some c, concat (map (\<lambda>x. snd (probeUrl net x)) (pre @ [c])))"
    by (rule probe_loop_first)
  with assms(1,2,3) have res: "resolveEndpoint table env net cache name =
      \<lparr>result = Inr c, resolved = cache(name \<mapsto> c),
       probes = concat (map (\<lambda>x. snd (probeUrl net x)) (pre @ [c]))\<rparr>"
    by (simp add: resolve_probing)
  have urls: "snd ` set (concat (map (\<lambda>x. snd (probeUrl net x)) xs)) = set xs" for xs
    by (induction xs) (auto simp: probeUrl_snd)
  have "snd ` set (concat (map (\<lambda>x. snd (probeUrl net x)) (pre @ [c]))) = set (pre @ [c])"
    by (rule urls)
  then have "snd ` set (concat (map (\<lambda>x. snd (probeUrl net x)) (pre @ [c]))) = set pre \<union> {c}"
    by (simp only: set_append list.set)
  with res show ?thesis
    by (simp only: probeUrl_fst probeUrl_snd resolution.simps simp_thms)
qed

text \<open>
  Claim C3. When the probing is reached (no override, no cached resolution), the candidate
  list is not empty and no probe is true, \<^verbatim>\<open>resolveEndpoint\<close> returns and caches the first
  candidate of the list, after probing every candidate; it raises no error. The first
  candidate is a non-empty string, as a URL is.
\<close>

theorem resolve_fallback_first:
  assumes "override env name = None" and "truthy_entry cache name = None"
    and "candidates table name = first # rest" and "first \<noteq> []"
    and "\<forall>x\<in>set (first # rest). \<not> fst (probeUrl net x)"
  shows "resolveEndpoint table env net cache name =
      \<lparr>result = Inr first, resolved = cache(name \<mapsto> first),
       probes = concat (map (\<lambda>x. snd (probeUrl net x)) (first # rest))\<rparr>"
proof -
  from assms(5) have "probe_loop net (first # rest) =
      (None, concat (map (\<lambda>x. snd (probeUrl net x)) (first # rest)))"
    by (rule probe_loop_none)
  with assms(1-4) show ?thesis
    by (simp add: resolve_probing)
qed

lemma resolve_run_entry:
  "resolve_run table env cache calls name = Some v \<Longrightarrow>
   cache name = Some v \<or> override env name = Some v \<or> v \<in> set (candidates table name)"
proof (induction calls arbitrary: cache)
  case Nil
  then show ?case by simp
next
  case (Cons call calls)
  obtain net name' where call: "call = (net, name')" by (cases call)
  let ?next = "resolved (resolveEndpoint table env net cache name')"
  from Cons.prems call have "resolve_run table env ?next calls name = Some v" by simp
  then have "?next name = Some v \<or> override env name = Some v \<or> v \<in> set (candidates table name)"
    by (rule Cons.IH)
  moreover have "cache name = Some v \<or> override env name = Some v \<or> v \<in> set (candidates table name)"
    if "?next name = Some v"
    using that
    by (cases "name' = name")
      (auto simp: resolve_other_key resolveEndpoint_def Let_def
        split: option.splits prod.splits list.splits if_splits dest: probe_loop_found_mem)
  ultimately show ?case by blast
qed

text \<open>
  Claim C4. At any moment of a run that started with an empty cache, and whatever the
  network does (every probe may fail), \<^verbatim>\<open>resolveEndpoint\<close> raises an error exactly when
  the operation has no override and its candidate list is empty. The candidate URLs of
  the operation are non-empty strings.
\<close>

theorem resolve_error_iff:
  assumes "urls_nonempty table name"
  shows "(\<exists>e. result (resolveEndpoint table env net (resolve_run table env Map.empty calls) name) = Inl e)
     \<longleftrightarrow> override env name = None \<and> candidates table name = []"
proof
  assume "\<exists>e. result (resolveEndpoint table env net (resolve_run table env Map.empty calls) name) = Inl e"
  with assms show "override env name = None \<and> candidates table name = []"
    by (auto simp: resolveEndpoint_def Let_def urls_nonempty_def
        split: option.splits prod.splits list.splits if_splits)
next
  assume rhs: "override env name = None \<and> candidates table name = []"
  have "resolve_run table env Map.empty calls name = None"
  proof (cases "resolve_run table env Map.empty calls name")
    case (Some v)
    then have "Map.empty name = Some v \<or> override env name = Some v \<or> v \<in> set (candidates table name)"
      by (rule resolve_run_entry)
    with rhs show ?thesis by simp
  qed simp
  then have "truthy_entry (resolve_run table env Map.empty calls) name = None"
    by (simp add: truthy_entry_def)
  with rhs show "\<exists>e. result (resolveEndpoint table env net (resolve_run table env Map.empty calls) name) = Inl e"
    by (simp add: resolve_probing)
qed


lemmas resolver_defs =
  override_def truthy_entry_def envKey_def candidates_def ENDPOINT_CANDIDATES_def
  urls_nonempty_def probeUrl_def net_www_def net_down_def env_override_def

lemma authorize_via_www:
  "resolveEndpoint ENDPOINT_CANDIDATES Map.empty net_www Map.empty ''authorize'' =
     \<lparr>result = Inr ''https://www.roblox.com/oauth/authorize'',
      resolved = [''authorize'' \<mapsto> ''https://www.roblox.com/oauth/authorize''],
      probes = [(HEAD, ''https://authorize.roblox.com/oauth/authorize''),
                (GET, ''https://authorize.roblox.com/oauth/authorize''),
                (HEAD, ''https://www.roblox.com/oauth/authorize''),
                (GET, ''https://www.roblox.com/oauth/authorize'')]\<rparr>"
  by (simp add: resolveEndpoint_def resolver_defs)

text \<open>
  C1 on the table of the source: the override of \<^verbatim>\<open>authorize\<close> is returned with the
  network down; and \<^verbatim>\<open>authorize\<close>, once resolved by probing, is returned without a
  request after a call for \<^verbatim>\<open>token\<close>, with the network down.
\<close>

theorem resolve_memoized_witness:
  "override env_override ''authorize'' = Some ''https://id.example/authorize'' \<and>
   resolveEndpoint ENDPOINT_CANDIDATES env_override net_down Map.empty ''authorize'' =
     \<lparr>result = Inr ''https://id.example/authorize'',
      resolved = [''authorize'' \<mapsto> ''https://id.example/authorize''], probes = []\<rparr> \<and>
   urls_nonempty ENDPOINT_CANDIDATES ''authorize'' \<and>
   result (resolveEndpoint ENDPOINT_CANDIDATES Map.empty net_www Map.empty ''authorize'') =
     Inr ''https://www.roblox.com/oauth/authorize'' \<and>
   result (resolveEndpoint ENDPOINT_CANDIDATES Map.empty net_down
      (resolve_run ENDPOINT_CANDIDATES Map.empty
         (resolved (resolveEndpoint ENDPOINT_CANDIDATES Map.empty net_www Map.empty ''authorize''))
         [(net_down, ''token'')]) ''authorize'') = Inr ''https://www.roblox.com/oauth/authorize'' \<and>
   probes (resolveEndpoint ENDPOINT_CANDIDATES Map.empty net_down
      (resolve_run ENDPOINT_CANDIDATES Map.empty
         (resolved (resolveEndpoint ENDPOINT_CANDIDATES Map.empty net_www Map.empty ''authorize''))
         [(net_down, ''token'')]) ''authorize'') = []"
proof -
  have h1: "override env_override ''authorize'' = Some ''https://id.example/authorize''"
    by (simp add: resolver_defs)
  have h2: "urls_nonempty ENDPOINT_CANDIDATES ''authorize''"
    by (simp add: resolver_defs)
  have h3: "result (resolveEndpoint ENDPOINT_CANDIDATES Map.empty net_www Map.empty ''authorize'') =
      Inr ''https://www.roblox.com/oauth/authorize''"
    by (simp add: authorize_via_www)
  from h1 resolve_memoized [of env_override "''authorize''" "''https://id.example/authorize''"
      ENDPOINT_CANDIDATES net_down Map.empty]
  have a: "resolveEndpoint ENDPOINT_CANDIDATES env_override net_down Map.empty ''authorize'' =
     \<lparr>result = Inr ''https://id.example/authorize'',
      resolved = [''authorize'' \<mapsto> ''https://id.example/authorize''], probes = []\<rparr>"
    by blast
  from h2 h3 resolve_memoized [of Map.empty "''authorize''" _ ENDPOINT_CANDIDATES net_www Map.empty
      "''https://www.roblox.com/oauth/authorize''" net_down "[(net_down, ''token'')]"]
  have b: "resolveEndpoint ENDPOINT_CANDIDATES Map.empty net_down
      (resolve_run ENDPOINT_CANDIDATES Map.empty
         (resolved (resolveEndpoint ENDPOINT_CANDIDATES Map.empty net_www Map.empty ''authorize''))
         [(net_down, ''token'')]) ''authorize'' =
      \<lparr>result = Inr ''https://www.roblox.com/oauth/authorize'',
       resolved = resolve_run ENDPOINT_CANDIDATES Map.empty
         (resolved (resolveEndpoint ENDPOINT_CANDIDATES Map.empty net_www Map.empty ''authorize''))
         [(net_down, ''token'')],
       probes = []\<rparr>"
    by blast
  from b have b1: "result (resolveEndpoint ENDPOINT_CANDIDATES Map.empty net_down
      (resolve_run ENDPOINT_CANDIDATES Map.empty
         (resolved (resolveEndpoint ENDPOINT_CANDIDATES Map.empty net_www Map.empty ''authorize''))
         [(net_down, ''token'')]) ''authorize'') = Inr ''https://www.roblox.com/oauth/authorize''"
    by (simp only: resolution.simps)
  from b have b2: "probes (resolveEndpoint ENDPOINT_CANDIDATES Map.empty net_down
      (resolve_run ENDPOINT_CANDIDATES Map.empty
         (resolved (resolveEndpoint ENDPOINT_CANDIDATES Map.empty net_www Map.empty ''authorize''))
         [(net_down, ''token'')]) ''authorize'') = []"
    by (simp only: resolution.simps)
  from h1 a h2 h3 b1 b2 show ?thesis
    by (simp only: simp_thms)
qed

text \<open>
  C2 on the table of the source, when only the second candidate of \<^verbatim>\<open>authorize\<close>
  answers, with a 404 to the GET request: it is returned and the third is not probed.
\<close>

theorem resolve_first_reachable_witness:
  "resolveEndpoint ENDPOINT_CANDIDATES Map.empty net_www Map.empty ''authorize'' =
     \<lparr>result = Inr ''https://www.roblox.com/oauth/authorize'',
      resolved = [''authorize'' \<mapsto> ''https://www.roblox.com/oauth/authorize''],
      probes = [(HEAD, ''https://authorize.roblox.com/oauth/authorize''),
                (GET, ''https://authorize.roblox.com/oauth/authorize''),
                (HEAD, ''https://www.roblox.com/oauth/authorize''),
                (GET, ''https://www.roblox.com/oauth/authorize'')]\<rparr>"
proof -
  have h1: "override Map.empty ''authorize'' = None"
    by (simp add: resolver_defs)
  have h2: "truthy_entry Map.empty ''authorize'' = None"
    by (simp add: resolver_defs)
  have h3: "candidates ENDPOINT_CANDIDATES ''authorize'' =
      [''https://authorize.roblox.com/oauth/authorize''] @
      ''https://www.roblox.com/oauth/authorize'' # [''https://apis.roblox.com/oauth/v1/authorize'']"
    by (simp add: resolver_defs)
  have h4: "\<forall>x\<in>set [''https://authorize.roblox.com/oauth/authorize'']. \<not> fst (probeUrl net_www x)"
    by (simp add: resolver_defs)
  have h5: "fst (probeUrl net_www ''https://www.roblox.com/oauth/authorize'')"
    by (simp add: resolver_defs)
  from resolve_first_reachable [OF h1 h2 h3 h4 h5]
  have "resolveEndpoint ENDPOINT_CANDIDATES Map.empty net_www Map.empty ''authorize'' =
      \<lparr>result = Inr ''https://www.roblox.com/oauth/authorize'',
       resolved = [''authorize'' \<mapsto> ''https://www.roblox.com/oauth/authorize''],
       probes = concat (map (\<lambda>x. snd (probeUrl net_www x))
         ([''https://authorize.roblox.com/oauth/authorize''] @
          [''https://www.roblox.com/oauth/authorize'']))\<rparr>"
    by blast
  then show ?thesis
    by (simp add: resolver_defs)
qed

text \<open>C3 on the table of the source, for \<^verbatim>\<open>token\<close> with the network down.\<close>

theorem resolve_fallback_first_witness:
  "resolveEndpoint ENDPOINT_CANDIDATES Map.empty net_down Map.empty ''token'' =
     \<lparr>result = Inr ''https://authorize.roblox.com/oauth/token'',
      resolved = [''token'' \<mapsto> ''https://authorize.roblox.com/oauth/token''],
      probes = [(HEAD, ''https://authorize.roblox.com/oauth/token''),
                (GET, ''https://authorize.roblox.com/oauth/token''),
                (HEAD, ''https://www.roblox.com/oauth/token''),
                (GET, ''https://www.roblox.com/oauth/token''),
                (HEAD, ''https://apis.roblox.com/oauth/v1/token''),
                (GET, ''https://apis.roblox.com/oauth/v1/token'')]\<rparr>"
proof -
  have h1: "override Map.empty ''token'' = None"
    by (simp add: resolver_defs)
  have h2: "truthy_entry Map.empty ''token'' = None"
    by (simp add: resolver_defs)
  have h3: "candidates ENDPOINT_CANDIDATES ''token'' =
      ''https://authorize.roblox.com/oauth/token'' #
      [''https://www.roblox.com/oauth/token'', ''https://apis.roblox.com/oauth/v1/token'']"
    by (simp add: resolver_defs)
  have h4: "''https://authorize.roblox.com/oauth/token'' \<noteq> []"
    by simp
  have h5: "\<forall>x\<in>set (''https://authorize.roblox.com/oauth/token'' #
      [''https://www.roblox.com/oauth/token'', ''https://apis.roblox.com/oauth/v1/token'']).
      \<not> fst (probeUrl net_down x)"
    by (simp add: resolver_defs)
  from resolve_fallback_first [OF h1 h2 h3 h4 h5] show ?thesis
    by (simp add: resolver_defs)
qed

text \<open>
  C4 on the table of the source, with the network down: no error for \<^verbatim>\<open>authorize\<close>, an
  error for an operation that the table does not have.
\<close>

theorem resolve_error_iff_witness:
  "urls_nonempty ENDPOINT_CANDIDATES ''authorize'' \<and>
   urls_nonempty ENDPOINT_CANDIDATES ''profile'' \<and>
   (\<nexists>e. result (resolveEndpoint ENDPOINT_CANDIDATES Map.empty net_down
      (resolve_run ENDPOINT_CANDIDATES Map.empty Map.empty [(net_down, ''token'')]) ''authorize'') = Inl e) \<and>
   (\<exists>e. result (resolveEndpoint ENDPOINT_CANDIDATES Map.empty net_down
      (resolve_run ENDPOINT_CANDIDATES Map.empty Map.empty [(net_down, ''token'')]) ''profile'') = Inl e)"
proof -
  have h1: "urls_nonempty ENDPOINT_CANDIDATES ''authorize''"
    by (simp add: resolver_defs)
  have h2: "urls_nonempty ENDPOINT_CANDIDATES ''profile''"
    by (simp add: resolver_defs)
  have a: "\<not> (override Map.empty ''authorize'' = None \<and> candidates ENDPOINT_CANDIDATES ''authorize'' = [])"
    by (simp add: resolver_defs)
  have b: "override Map.empty ''profile'' = None \<and> candidates ENDPOINT_CANDIDATES ''profile'' = []"
    by (simp add: resolver_defs)
  from a resolve_error_iff [OF h1, of Map.empty net_down "[(net_down, ''token'')]"]
  have c: "\<nexists>e. result (resolveEndpoint ENDPOINT_CANDIDATES Map.empty net_down
      (resolve_run ENDPOINT_CANDIDATES Map.empty Map.empty [(net_down, ''token'')]) ''authorize'') = Inl e"
    by blast
  from b resolve_error_iff [OF h2, of Map.empty net_down "[(net_down, ''token'')]"]
  have d: "\<exists>e. result (resolveEndpoint ENDPOINT_CANDIDATES Map.empty net_down
      (resolve_run ENDPOINT_CANDIDATES Map.empty Map.empty [(net_down, ''token'')]) ''profile'') = Inl e"
    by blast
  from h1 h2 c d show ?thesis by blast
qed

section \<open>Properties of the games aggregator\<close>

lemma js_or_first_truthy: "js_or a b = first_truthy [a] b"
  by (simp add: js_or_def)




lemma strategy1_calls: "snd (strategy1 up q limit games) = [GamesList q limit]"
  by (simp add: strategy1_def strategy1_body_def split: option.splits prod.splits)

lemma strategy2_calls:
  "set (snd (strategy2 up limit games)) \<subseteq> insert GamesSorts (range (\<lambda>t. GamesBySort t limit))"
  by (auto simp: strategy2_def strategy2_body_def Let_def split: option.splits prod.splits if_splits)

lemma strategy3_calls: "PlaceDetails q \<in> set (snd (strategy3 up q games))"
  by (auto simp: strategy3_def strategy3_body_def split: option.splits prod.splits json.splits list.splits)

lemma first_two_calls: "PlaceDetails p \<notin> set (snd (first_two up q limit))"
proof -
  have "PlaceDetails p \<notin> set (snd (strategy1 up q limit []))"
    by (simp add: strategy1_calls)
  moreover have "PlaceDetails p \<notin> set (snd (strategy2 up limit []))"
    using strategy2_calls [of up limit "[]"] by auto
  ultimately show ?thesis
    by (auto simp: first_two_def split: prod.splits if_splits)
qed

lemma api_games_unfold:
  "api_games up lp qp =
     (\<lparr>res_status = 200, res_query = query_of qp, res_limit = limit_of lp,
       res_data = (if fst (first_two up (query_of qp) (limit_of lp)) = [] \<and> digits_only (query_of qp)
                   then fst (strategy3 up (query_of qp) [])
                   else fst (first_two up (query_of qp) (limit_of lp))),
       res_error = None\<rparr>,
      snd (first_two up (query_of qp) (limit_of lp)) @
      (if fst (first_two up (query_of qp) (limit_of lp)) = [] \<and> digits_only (query_of qp)
       then snd (strategy3 up (query_of qp) []) else []))"
  by (auto simp: api_games_def Let_def digits_only_def split: prod.splits)

lemma first_two_unfold:
  "first_two up q limit =
     (if fst (strategy1 up q limit []) = []
      then (fst (strategy2 up limit []), [GamesList q limit] @ snd (strategy2 up limit []))
      else (fst (strategy1 up q limit []), [GamesList q limit]))"
  using strategy1_calls [of up q limit "[]"]
  by (auto simp: first_two_def split: prod.splits)

text \<open>
  Claim C5. When the first strategy (the list endpoint) leaves a non-empty list of records,
  the response of the handler carries exactly that list, and the only upstream call issued
  is the one of the first strategy: the second and the third strategy issue none.
\<close>

theorem first_strategy_final:
  assumes "fst (strategy1 up (query_of qp) (limit_of lp) []) = games" and "games \<noteq> []"
  shows "api_games up lp qp =
     (\<lparr>res_status = 200, res_query = query_of qp, res_limit = limit_of lp, res_data = games,
       res_error = None\<rparr>,
      [GamesList (query_of qp) (limit_of lp)])"
proof -
  from assms have "first_two up (query_of qp) (limit_of lp) =
      (games, [GamesList (query_of qp) (limit_of lp)])"
    by (simp add: first_two_unfold)
  with assms(2) show ?thesis
    by (simp add: api_games_unfold)
qed

text \<open>
  Claim C6, amended. The place-details lookup of the third strategy is issued exactly when
  the first two strategies left an empty list and the query string, after the handler has
  trimmed the white space around it, is made of digits only and is not empty. Otherwise the
  third strategy issues no call at all.
\<close>

theorem id_fallback_iff:
  "(PlaceDetails (query_of qp) \<in> set (snd (api_games up lp qp)) \<longleftrightarrow>
      fst (first_two up (query_of qp) (limit_of lp)) = [] \<and> digits_only (query_of qp)) \<and>
   (\<not> (fst (first_two up (query_of qp) (limit_of lp)) = [] \<and> digits_only (query_of qp)) \<longrightarrow>
      snd (api_games up lp qp) = snd (first_two up (query_of qp) (limit_of lp)))"
proof (cases "fst (first_two up (query_of qp) (limit_of lp)) = [] \<and> digits_only (query_of qp)")
  case True
  then have "snd (api_games up lp qp) =
      snd (first_two up (query_of qp) (limit_of lp)) @ snd (strategy3 up (query_of qp) [])"
    by (simp add: api_games_unfold)
  with True show ?thesis
    by (simp add: strategy3_calls)
next
  case False
  then have "snd (api_games up lp qp) = snd (first_two up (query_of qp) (limit_of lp))"
    by (auto simp: api_games_unfold)
  with False show ?thesis
    by (simp add: first_two_calls)
qed

lemma strategy_fst:
  "fst (strategy1 up q limit games) = caught games (fst (strategy1_body up q limit games))"
  "fst (strategy2 up limit games) = caught games (fst (strategy2_body up limit games))"
  "fst (strategy3 up q games) = caught games (fst (strategy3_body up q games))"
  by (simp_all add: strategy1_def strategy2_def strategy3_def split: prod.splits)

lemma caught_empty: "failed_or_empty r \<Longrightarrow> caught [] r = []"
  by (cases r) (simp_all add: caught_def)

text \<open>
  Claim C7. Whatever the upstream does, the handler answers with status 200 and no error
  field. When every strategy that runs fails (its block throws) or leaves an empty list,
  the response carries the empty list of records.
\<close>

theorem exhausted_chain_success:
  "res_status (fst (api_games up lp qp)) = 200 \<and>
   res_error (fst (api_games up lp qp)) = None \<and>
   (failed_or_empty (fst (strategy1_body up (query_of qp) (limit_of lp) [])) \<longrightarrow>
    failed_or_empty (fst (strategy2_body up (limit_of lp) [])) \<longrightarrow>
    (digits_only (query_of qp) \<longrightarrow>
       failed_or_empty (fst (strategy3_body up (query_of qp) []))) \<longrightarrow>
    fst (api_games up lp qp) =
      \<lparr>res_status = 200, res_query = query_of qp, res_limit = limit_of lp, res_data = [],
       res_error = None\<rparr>)"
proof (intro conjI impI)
  assume "failed_or_empty (fst (strategy1_body up (query_of qp) (limit_of lp) []))"
    and "failed_or_empty (fst (strategy2_body up (limit_of lp) []))"
    and "digits_only (query_of qp) \<longrightarrow>
       failed_or_empty (fst (strategy3_body up (query_of qp) []))"
  then have "fst (strategy1 up (query_of qp) (limit_of lp) []) = []"
    and "fst (strategy2 up (limit_of lp) []) = []"
    and "digits_only (query_of qp) \<longrightarrow> fst (strategy3 up (query_of qp) []) = []"
    by (simp_all add: strategy_fst caught_empty)
  then show "fst (api_games up lp qp) =
      \<lparr>res_status = 200, res_query = query_of qp, res_limit = limit_of lp, res_data = [],
       res_error = None\<rparr>"
    by (simp add: api_games_unfold first_two_unfold)
qed (simp_all add: api_games_unfold)


lemma first_truthy_defined: "d \<noteq> JUndefined \<Longrightarrow> first_truthy as d \<noteq> JUndefined"
  by (induction as) auto

lemma first_truthy_truthy_or_default: "truthy (first_truthy as d) \<or> first_truthy as d = d"
  by (induction as) auto

lemma list_game_first_truthy:
  "list_game g =
     \<lparr>game_id = first_truthy [get_prop g ''id'', get_prop g ''universeId'', get_prop g ''placeId'']
                  (get_prop g ''assetId''),
      game_name = first_truthy [get_prop g ''name'', get_prop g ''title''] (JStr []),
      creator = first_truthy [js_and (get_prop g ''creator'')
                                     (get_prop (get_prop g ''creator'') ''name''),
                              get_prop g ''creatorName''] (JStr ''Unknown''),
      thumbnail = first_truthy [get_prop g ''iconUrl'', get_prop g ''thumbnailUrl''] JNull,
      playing = first_truthy [get_prop g ''playing'', get_prop g ''currentPlayers''] JNull,
      visits = first_truthy [get_prop g ''visits''] JNull\<rparr>"
  by (simp add: list_game_def js_or_def)

lemma sort_game_first_truthy:
  "sort_game g =
     \<lparr>game_id = first_truthy [get_prop g ''id''] (get_prop g ''universeId''),
      game_name = get_prop g ''name'',
      creator = first_truthy [opt_prop (get_prop g ''creator'') ''name''] (JStr ''Unknown''),
      thumbnail = first_truthy [get_prop g ''iconUrl''] JNull,
      playing = first_truthy [get_prop g ''playing''] JNull,
      visits = first_truthy [get_prop g ''visits''] JNull\<rparr>"
  by (simp add: sort_game_def js_or_def)

lemma universe_game_first_truthy:
  "universe_game g =
     \<lparr>game_id = get_prop g ''id'',
      game_name = get_prop g ''name'',
      creator = first_truthy [opt_prop (get_prop g ''creator'') ''name''] (JStr ''Unknown''),
      thumbnail = first_truthy [get_prop g ''iconUrl''] JNull,
      playing = first_truthy [get_prop g ''playing''] JNull,
      visits = first_truthy [get_prop g ''visits''] JNull\<rparr>"
  by (simp add: universe_game_def js_or_def)

lemma map_games_null:
  "g \<in> set gs \<Longrightarrow> nullish g \<Longrightarrow> map_games build gs = Inl TypeError"
  by (induction gs) (auto simp: map_callback_def split: sum.splits js_error.splits)

lemma data_not_nullish: "get_prop r k = JArr gs \<Longrightarrow> \<not> nullish r"
  by (cases r) simp_all

lemma assign_games_null:
  assumes "g \<in> set gs" and "nullish g" and "get_prop r ''data'' = JArr gs"
  shows "assign_games build r games = Inl TypeError"
proof -
  from assms(1) obtain x xs where gs: "gs = x # xs"
    by (cases gs) auto
  from assms(3) have "\<not> nullish r"
    by (rule data_not_nullish)
  with assms(3) gs have "assign_games build r games = map_games build gs"
    by (simp add: assign_games_def)
  with assms(1,2) show ?thesis
    by (simp add: map_games_null)
qed


text \<open>
  Claim C8, amended. For every upstream game other than \<^verbatim>\<open>null\<close>, the mapping of each
  strategy raises nothing and gives each field from its ordered aliases, the first alias
  with a truthy value winning. When no alias is truthy the creator is \<^verbatim>\<open>"Unknown"\<close> and the
  thumbnail, the count of players and the visits are \<^verbatim>\<open>null\<close>, in every strategy: so a game
  with no thumbnail field has the thumbnail \<^verbatim>\<open>null\<close>, and these four fields are never
  \<^verbatim>\<open>undefined\<close>. The name is the empty string then in the first strategy, where it is
  never \<^verbatim>\<open>undefined\<close>; the second and the third strategy copy \<^verbatim>\<open>g.name\<close> as it is. The
  identifier has no default: in the first strategy it is the first truthy one of \<^verbatim>\<open>id\<close>,
  \<^verbatim>\<open>universeId\<close>, \<^verbatim>\<open>placeId\<close> and else the value of \<^verbatim>\<open>assetId\<close>, in the second \<^verbatim>\<open>id\<close> when
  truthy and else the value of \<^verbatim>\<open>universeId\<close>, in the third the value of \<^verbatim>\<open>id\<close>. On an
  element \<^verbatim>\<open>null\<close> the mapping throws a TypeError, and so does the mapping of a list that
  has such an element; the catch of the strategy absorbs it and leaves the list of games
  as it was.
\<close>

theorem normalization_fields:
  "(\<not> nullish g \<longrightarrow>
      map_callback list_game g =
        Inr \<lparr>game_id = first_truthy
                 [get_prop g ''id'', get_prop g ''universeId'', get_prop g ''placeId'']
                 (get_prop g ''assetId''),
             game_name = first_truthy [get_prop g ''name'', get_prop g ''title''] (JStr []),
             creator = first_truthy [js_and (get_prop g ''creator'')
                                            (get_prop (get_prop g ''creator'') ''name''),
                                     get_prop g ''creatorName''] (JStr ''Unknown''),
             thumbnail = first_truthy [get_prop g ''iconUrl'', get_prop g ''thumbnailUrl''] JNull,
             playing = first_truthy [get_prop g ''playing'', get_prop g ''currentPlayers''] JNull,
             visits = first_truthy [get_prop g ''visits''] JNull\<rparr> \<and>
      map_callback sort_game g =
        Inr \<lparr>game_id = first_truthy [get_prop g ''id''] (get_prop g ''universeId''),
             game_name = get_prop g ''name'',
             creator = first_truthy [opt_prop (get_prop g ''creator'') ''name'']
                         (JStr ''Unknown''),
             thumbnail = first_truthy [get_prop g ''iconUrl''] JNull,
             playing = first_truthy [get_prop g ''playing''] JNull,
             visits = first_truthy [get_prop g ''visits''] JNull\<rparr> \<and>
      map_callback universe_game g =
        Inr \<lparr>game_id = get_prop g ''id'',
             game_name = get_prop g ''name'',
             creator = first_truthy [opt_prop (get_prop g ''creator'') ''name'']
                         (JStr ''Unknown''),
             thumbnail = first_truthy [get_prop g ''iconUrl''] JNull,
             playing = first_truthy [get_prop g ''playing''] JNull,
             visits = first_truthy [get_prop g ''visits''] JNull\<rparr>) \<and>
   (get_prop g ''iconUrl'' = JUndefined \<longrightarrow>
      thumbnail (sort_game g) = JNull \<and> thumbnail (universe_game g) = JNull \<and>
      (get_prop g ''thumbnailUrl'' = JUndefined \<longrightarrow> thumbnail (list_game g) = JNull)) \<and>
   (build = list_game \<or> build = sort_game \<or> build = universe_game \<longrightarrow>
      creator (build g) \<noteq> JUndefined \<and> thumbnail (build g) \<noteq> JUndefined \<and>
      playing (build g) \<noteq> JUndefined \<and> visits (build g) \<noteq> JUndefined) \<and>
   game_name (list_game g) \<noteq> JUndefined \<and>
   (nullish g \<longrightarrow>
      map_callback build g = Inl TypeError \<and>
      (g \<in> set gs \<longrightarrow>
         map_games build gs = Inl TypeError \<and>
         (get_prop r ''data'' = JArr gs \<longrightarrow>
            assign_games build r games = Inl TypeError \<and>
            caught games (assign_games build r games) = games \<and>
            (up (GamesList q limit) = Some r \<longrightarrow>
               fst (strategy1 up q limit games) = games))))"
proof -
  have mapped: "map_callback list_game g = Inr (list_game g)"
    "map_callback sort_game g = Inr (sort_game g)"
    "map_callback universe_game g = Inr (universe_game g)" if "\<not> nullish g"
    using that by (simp_all add: map_callback_def)
  have missing: "thumbnail (sort_game g) = JNull \<and> thumbnail (universe_game g) = JNull \<and>
      (get_prop g ''thumbnailUrl'' = JUndefined \<longrightarrow> thumbnail (list_game g) = JNull)"
    if "get_prop g ''iconUrl'' = JUndefined"
    using that
    by (simp add: list_game_first_truthy sort_game_first_truthy universe_game_first_truthy)
  have unknown: "first_truthy as (JStr ''Unknown'') \<noteq> JUndefined"
    and null: "first_truthy as JNull \<noteq> JUndefined" for as
    by (simp_all add: first_truthy_defined)
  have defined: "creator (build g) \<noteq> JUndefined \<and> thumbnail (build g) \<noteq> JUndefined \<and>
      playing (build g) \<noteq> JUndefined \<and> visits (build g) \<noteq> JUndefined"
    if "build = list_game \<or> build = sort_game \<or> build = universe_game"
    using that
    by (elim disjE) (simp_all only: list_game_first_truthy sort_game_first_truthy
        universe_game_first_truthy game.simps unknown null simp_thms)
  have "first_truthy as (JStr []) \<noteq> JUndefined" for as
    by (simp add: first_truthy_defined)
  then have name: "game_name (list_game g) \<noteq> JUndefined"
    by (simp only: list_game_first_truthy game.simps simp_thms)
  have thrown: "map_callback build g = Inl TypeError" if "nullish g"
    using that by (simp add: map_callback_def)
  have list_thrown: "map_games build gs = Inl TypeError" if "nullish g" "g \<in> set gs"
    using that by (simp add: map_games_null)
  have assign_thrown: "assign_games build r games = Inl TypeError"
    if "nullish g" "g \<in> set gs" "get_prop r ''data'' = JArr gs"
    using that by (simp add: assign_games_null)
  then have absorbed: "caught games (assign_games build r games) = games"
    if "nullish g" "g \<in> set gs" "get_prop r ''data'' = JArr gs"
    using that by (simp add: caught_def)
  have strategy: "fst (strategy1 up q limit games) = games"
    if "nullish g" "g \<in> set gs" "get_prop r ''data'' = JArr gs" "up (GamesList q limit) = Some r"
  proof -
    from that(4) have "fst (strategy1_body up q limit games) = assign_games list_game r games"
      by (simp add: strategy1_body_def)
    moreover have "assign_games list_game r games = Inl TypeError"
      by (rule assign_games_null [OF that(2) that(1) that(3)])
    ultimately show ?thesis
      by (simp add: strategy_fst caught_def)
  qed
  from mapped missing defined name thrown list_thrown assign_thrown absorbed strategy
  have "(\<not> nullish g \<longrightarrow>
      map_callback list_game g = Inr (list_game g) \<and>
      map_callback sort_game g = Inr (sort_game g) \<and>
      map_callback universe_game g = Inr (universe_game g)) \<and>
   (get_prop g ''iconUrl'' = JUndefined \<longrightarrow>
      thumbnail (sort_game g) = JNull \<and> thumbnail (universe_game g) = JNull \<and>
      (get_prop g ''thumbnailUrl'' = JUndefined \<longrightarrow> thumbnail (list_game g) = JNull)) \<and>
   (build = list_game \<or> build = sort_game \<or> build = universe_game \<longrightarrow>
      creator (build g) \<noteq> JUndefined \<and> thumbnail (build g) \<noteq> JUndefined \<and>
      playing (build g) \<noteq> JUndefined \<and> visits (build g) \<noteq> JUndefined) \<and>
   game_name (list_game g) \<noteq> JUndefined \<and>
   (nullish g \<longrightarrow>
      map_callback build g = Inl TypeError \<and>
      (g \<in> set gs \<longrightarrow>
         map_games build gs = Inl TypeError \<and>
         (get_prop r ''data'' = JArr gs \<longrightarrow>
            assign_games build r games = Inl TypeError \<and>
            caught games (assign_games build r games) = games \<and>
            (up (GamesList q limit) = Some r \<longrightarrow>
               fst (strategy1 up q limit games) = games))))"
    by blast
  then show ?thesis
    unfolding list_game_first_truthy [symmetric] sort_game_first_truthy [symmetric]
      universe_game_first_truthy [symmetric] .
qed








lemma creator_name_empty:
  "get_prop c ''name'' = JStr [] \<Longrightarrow> opt_prop c ''name'' = JStr [] \<and> truthy c"
  by (cases c) (simp_all add: opt_prop_def)

text \<open>
  Claim C10, amended. A falsy value of an alias counts as a missing one. A game whose
  \<^verbatim>\<open>playing\<close> is 0 has the count \<^verbatim>\<open>null\<close> in the second and the third strategy, and in the
  first one the value of \<^verbatim>\<open>currentPlayers\<close> when that is truthy, \<^verbatim>\<open>null\<close> otherwise. A game
  whose creator has the empty name has the creator \<^verbatim>\<open>"Unknown"\<close> in the second and the
  third strategy, and in the first one the value of \<^verbatim>\<open>creatorName\<close> when that is truthy,
  \<^verbatim>\<open>"Unknown"\<close> otherwise. In every strategy the creator is truthy, and the thumbnail, the
  count and the visits are truthy or \<^verbatim>\<open>null\<close>.
\<close>

theorem falsy_like_missing:
  "(get_prop g ''playing'' = JNum 0 \<longrightarrow>
      playing (sort_game g) = JNull \<and> playing (universe_game g) = JNull \<and>
      playing (list_game g) = first_truthy [get_prop g ''currentPlayers''] JNull) \<and>
   (get_prop (get_prop g ''creator'') ''name'' = JStr [] \<longrightarrow>
      creator (sort_game g) = JStr ''Unknown'' \<and> creator (universe_game g) = JStr ''Unknown'' \<and>
      creator (list_game g) = first_truthy [get_prop g ''creatorName''] (JStr ''Unknown'')) \<and>
   (build = list_game \<or> build = sort_game \<or> build = universe_game \<longrightarrow>
      truthy (creator (build g)) \<and>
      (truthy (thumbnail (build g)) \<or> thumbnail (build g) = JNull) \<and>
      (truthy (playing (build g)) \<or> playing (build g) = JNull) \<and>
      (truthy (visits (build g)) \<or> visits (build g) = JNull))"
proof (intro conjI impI)
  assume zero: "get_prop g ''playing'' = JNum 0"
  then show "playing (sort_game g) = JNull" "playing (universe_game g) = JNull"
    "playing (list_game g) = first_truthy [get_prop g ''currentPlayers''] JNull"
    by (simp_all add: sort_game_first_truthy universe_game_first_truthy list_game_first_truthy)
next
  assume "get_prop (get_prop g ''creator'') ''name'' = JStr []"
  then have empty: "get_prop (get_prop g ''creator'') ''name'' = JStr []"
    "opt_prop (get_prop g ''creator'') ''name'' = JStr []" "truthy (get_prop g ''creator'')"
    by (simp_all add: creator_name_empty)
  then show "creator (sort_game g) = JStr ''Unknown''" "creator (universe_game g) = JStr ''Unknown''"
    "creator (list_game g) = first_truthy [get_prop g ''creatorName''] (JStr ''Unknown'')"
    by (simp_all add: sort_game_first_truthy universe_game_first_truthy list_game_first_truthy
        js_and_def)
next
  assume build: "build = list_game \<or> build = sort_game \<or> build = universe_game"
  have unknown: "truthy (first_truthy as (JStr ''Unknown''))" for as
    using first_truthy_truthy_or_default [of as "JStr ''Unknown''"] by auto
  from build show "truthy (creator (build g))"
    by (elim disjE) (simp_all only: sort_game_first_truthy universe_game_first_truthy
        list_game_first_truthy game.simps unknown)
  from build show "truthy (thumbnail (build g)) \<or> thumbnail (build g) = JNull"
    by (elim disjE) (simp_all only: sort_game_first_truthy universe_game_first_truthy
        list_game_first_truthy game.simps first_truthy_truthy_or_default)
  from build show "truthy (playing (build g)) \<or> playing (build g) = JNull"
    by (elim disjE) (simp_all only: sort_game_first_truthy universe_game_first_truthy
        list_game_first_truthy game.simps first_truthy_truthy_or_default)
  from build show "truthy (visits (build g)) \<or> visits (build g) = JNull"
    by (elim disjE) (simp_all only: sort_game_first_truthy universe_game_first_truthy
        list_game_first_truthy game.simps first_truthy_truthy_or_default)
qed

text \<open>
  C10 as stated fails in the first strategy on a game whose \<^verbatim>\<open>playing\<close> is 0 and whose creator
  has the empty name, when the second alias of each is truthy: the count is 7 and the
  creator is Bob.
\<close>

theorem falsy_like_missing_counterexample:
  "get_prop game_two_aliases ''playing'' = JNum 0 \<and>
   get_prop (get_prop game_two_aliases ''creator'') ''name'' = JStr [] \<and>
   map_callback list_game game_two_aliases =
     Inr \<lparr>game_id = JNum 5, game_name = JStr [], creator = JStr ''Bob'', thumbnail = JNull,
          playing = JNum 7, visits = JNull\<rparr>"
  by (simp add: game_two_aliases_def map_callback_def list_game_def js_or_def js_and_def)

lemmas games_defs =
  api_games_def first_two_def strategy1_def strategy2_def strategy3_def strategy1_body_def
  strategy2_body_def strategy3_body_def assign_games_def map_callback_def caught_def
  list_game_def sort_game_def universe_game_def js_or_def js_and_def opt_prop_def
  limit_of_def query_of_def trim_def is_space_def digits_only_def is_digit_def up_down_def
  Let_def

text \<open>
  C6 as stated fails on a query with white space around the digits: the query parameter
  \<^verbatim>\<open>" 123"\<close> is not made of digits only, and the lookup of place 123 is issued.
\<close>

theorem id_fallback_iff_counterexample:
  "\<not> digits_only '' 123'' \<and>
   snd (api_games up_down None (Some '' 123'')) =
     [GamesList ''123'' 25, GamesSorts, PlaceDetails ''123'']"
  by (simp add: games_defs)

text \<open>C5 when the list endpoint answers with two games.\<close>

theorem first_strategy_final_witness:
  "api_games up_list None None =
     (\<lparr>res_status = 200, res_query = [], res_limit = 25,
       res_data =
         [\<lparr>game_id = JNum 7, game_name = JStr ''Seven'', creator = JStr ''Unknown'',
           thumbnail = JNull, playing = JNum 12, visits = JNull\<rparr>,
          \<lparr>game_id = JNum 8, game_name = JStr ''Eight'', creator = JStr ''Ann'',
           thumbnail = JNull, playing = JNull, visits = JNull\<rparr>],
       res_error = None\<rparr>,
      [GamesList [] 25])"
proof -
  let ?games = "[\<lparr>game_id = JNum 7, game_name = JStr ''Seven'', creator = JStr ''Unknown'',
           thumbnail = JNull, playing = JNum 12, visits = JNull\<rparr>,
          \<lparr>game_id = JNum 8, game_name = JStr ''Eight'', creator = JStr ''Ann'',
           thumbnail = JNull, playing = JNull, visits = JNull\<rparr>]"
  have h1: "fst (strategy1 up_list (query_of None) (limit_of None) []) = ?games"
    by (simp add: games_defs)
  have h2: "?games \<noteq> []"
    by simp
  from first_strategy_final [OF h1 h2] show ?thesis
    by (simp add: limit_of_def query_of_def trim_def)
qed

text \<open>
  C6, amended, on the example of the specification: the first two strategies fail, place
  123 is in universe 9, whose listing has one game named Test; and a query that is not
  numeric stops after the first two strategies.
\<close>

theorem id_fallback_iff_witness:
  "PlaceDetails ''123'' \<in> set (snd (api_games up_place None (Some ''123''))) \<and>
   res_data (fst (api_games up_place None (Some ''123''))) =
     [\<lparr>game_id = JNum 9, game_name = JStr ''Test'', creator = JStr ''Unknown'',
       thumbnail = JNull, playing = JNull, visits = JNull\<rparr>] \<and>
   snd (api_games up_place None (Some ''12a'')) = [GamesList ''12a'' 25, GamesSorts]"
proof -
  have q1: "query_of (Some ''123'') = ''123''" and q2: "query_of (Some ''12a'') = ''12a''"
    and l: "limit_of None = 25"
    by (simp_all add: games_defs)
  have h1: "fst (first_two up_place ''123'' 25) = [] \<and> digits_only ''123''"
    by (simp add: games_defs)
  have h2: "\<not> (fst (first_two up_place ''12a'' 25) = [] \<and> digits_only ''12a'')"
    by (simp add: games_defs)
  have calls: "snd (first_two up_place ''12a'' 25) = [GamesList ''12a'' 25, GamesSorts]"
    by (simp add: games_defs)
  have data: "res_data (fst (api_games up_place None (Some ''123''))) =
     [\<lparr>game_id = JNum 9, game_name = JStr ''Test'', creator = JStr ''Unknown'',
       thumbnail = JNull, playing = JNull, visits = JNull\<rparr>]"
    by (simp add: games_defs)
  from h1 id_fallback_iff [of "Some ''123''" up_place None]
  have a: "PlaceDetails ''123'' \<in> set (snd (api_games up_place None (Some ''123'')))"
    by (simp only: q1 l simp_thms)
  from h2 id_fallback_iff [of "Some ''12a''" up_place None]
  have b: "snd (api_games up_place None (Some ''12a'')) = snd (first_two up_place ''12a'' 25)"
    by (simp only: q2 l simp_thms)
  from a data b calls show ?thesis
    by (simp only: simp_thms)
qed

text \<open>C7 when every upstream call fails, for a numeric query.\<close>

theorem exhausted_chain_success_witness:
  "failed_or_empty (fst (strategy1_body up_down (query_of (Some ''42'')) (limit_of None) [])) \<and>
   failed_or_empty (fst (strategy2_body up_down (limit_of None) [])) \<and>
   digits_only (query_of (Some ''42'')) \<and>
   failed_or_empty (fst (strategy3_body up_down (query_of (Some ''42'')) [])) \<and>
   fst (api_games up_down None (Some ''42'')) =
     \<lparr>res_status = 200, res_query = ''42'', res_limit = 25, res_data = [], res_error = None\<rparr>"
proof -
  have h1: "failed_or_empty (fst (strategy1_body up_down (query_of (Some ''42'')) (limit_of None) []))"
    by (simp add: games_defs)
  have h2: "failed_or_empty (fst (strategy2_body up_down (limit_of None) []))"
    by (simp add: games_defs)
  have h3: "failed_or_empty (fst (strategy3_body up_down (query_of (Some ''42'')) []))"
    by (simp add: games_defs)
  have h4: "digits_only (query_of (Some ''42''))"
    by (simp add: games_defs)
  from h1 h2 h3 exhausted_chain_success [of up_down None "Some ''42''"]
  have "fst (api_games up_down None (Some ''42'')) =
      \<lparr>res_status = 200, res_query = query_of (Some ''42''), res_limit = limit_of None,
       res_data = [], res_error = None\<rparr>"
    by blast
  moreover have "query_of (Some ''42'') = ''42''" "limit_of None = 25"
    by (simp_all add: games_defs)
  ultimately show ?thesis
    using h1 h2 h3 h4 by (simp only: simp_thms)
qed

text \<open>C10, amended, on a game whose \<^verbatim>\<open>playing\<close> is 0 and whose creator has the empty name.\<close>

theorem falsy_like_missing_witness:
  "get_prop (JObj [(''playing'', JNum 0), (''creator'', JObj [(''name'', JStr [])])]) ''playing'' =
     JNum 0 \<and>
   playing (sort_game (JObj [(''playing'', JNum 0), (''creator'', JObj [(''name'', JStr [])])])) =
     JNull \<and>
   playing (list_game (JObj [(''playing'', JNum 0), (''creator'', JObj [(''name'', JStr [])])])) =
     JNull \<and>
   creator (sort_game (JObj [(''playing'', JNum 0), (''creator'', JObj [(''name'', JStr [])])])) =
     JStr ''Unknown'' \<and>
   creator (list_game (JObj [(''playing'', JNum 0), (''creator'', JObj [(''name'', JStr [])])])) =
     JStr ''Unknown'' \<and>
   truthy (creator (universe_game
     (JObj [(''playing'', JNum 0), (''creator'', JObj [(''name'', JStr [])])])))"
proof -
  let ?g = "JObj [(''playing'', JNum 0), (''creator'', JObj [(''name'', JStr [])])]"
  have h1: "get_prop ?g ''playing'' = JNum 0"
    by simp
  have h2: "get_prop (get_prop ?g ''creator'') ''name'' = JStr []"
    by simp
  have h3: "universe_game = list_game \<or> universe_game = sort_game \<or> universe_game = universe_game"
    by simp
  from h1 h2 h3 falsy_like_missing [of ?g universe_game]
  have "playing (sort_game ?g) = JNull"
    and "playing (list_game ?g) = first_truthy [get_prop ?g ''currentPlayers''] JNull"
    and "creator (sort_game ?g) = JStr ''Unknown''"
    and "creator (list_game ?g) = first_truthy [get_prop ?g ''creatorName''] (JStr ''Unknown'')"
    and "truthy (creator (universe_game ?g))"
    by blast+
  with h1 show ?thesis
    by simp
qed

text \<open>
  C8 as stated fails on a game with no identifier alias, whose record has the identifier
  \<^verbatim>\<open>undefined\<close>, neither \<^verbatim>\<open>null\<close> nor a default; on the element \<^verbatim>\<open>null\<close>, where the
  mapping throws; and in the second strategy on a game with no name, whose record has the
  name \<^verbatim>\<open>undefined\<close>.
\<close>

theorem normalization_fields_counterexample:
  "map_callback list_game (JObj []) =
     Inr \<lparr>game_id = JUndefined, game_name = JStr [], creator = JStr ''Unknown'',
          thumbnail = JNull, playing = JNull, visits = JNull\<rparr> \<and>
   map_callback list_game JNull = Inl TypeError \<and>
   map_callback sort_game (JObj [(''id'', JNum 1)]) =
     Inr \<lparr>game_id = JNum 1, game_name = JUndefined, creator = JStr ''Unknown'',
          thumbnail = JNull, playing = JNull, visits = JNull\<rparr>"
  by (simp add: map_callback_def list_game_def sort_game_def js_or_def js_and_def opt_prop_def)

text \<open>
  C8, amended, on a game that has an identifier and a name only, in the second strategy;
  and on the answer of the list endpoint that has an element \<^verbatim>\<open>null\<close>, where the first
  strategy leaves no game.
\<close>

theorem normalization_fields_witness:
  "map_callback sort_game (JObj [(''id'', JNum 3), (''name'', JStr ''Three'')]) =
     Inr \<lparr>game_id = JNum 3, game_name = JStr ''Three'', creator = JStr ''Unknown'',
          thumbnail = JNull, playing = JNull, visits = JNull\<rparr> \<and>
   thumbnail (list_game (JObj [(''id'', JNum 3), (''name'', JStr ''Three'')])) = JNull \<and>
   creator (sort_game (JObj [(''id'', JNum 3), (''name'', JStr ''Three'')])) \<noteq> JUndefined \<and>
   map_games list_game [JObj [(''id'', JNum 1)], JNull] = Inl TypeError \<and>
   fst (strategy1 up_null [] 25 []) = []"
proof -
  let ?g = "JObj [(''id'', JNum 3), (''name'', JStr ''Three'')]"
  let ?gs = "[JObj [(''id'', JNum 1)], JNull]"
  let ?r = "JObj [(''data'', JArr ?gs)]"
  have h1: "\<not> nullish ?g"
    by simp
  have h2: "get_prop ?g ''iconUrl'' = JUndefined" and h3: "get_prop ?g ''thumbnailUrl'' = JUndefined"
    by simp_all
  have h4: "sort_game = list_game \<or> sort_game = sort_game \<or> sort_game = universe_game"
    by simp
  have h5: "nullish JNull" and h6: "JNull \<in> set ?gs"
    and h7: "get_prop ?r ''data'' = JArr ?gs" and h8: "up_null (GamesList [] 25) = Some ?r"
    by simp_all
  from h1 h2 h3 h4 normalization_fields [where g = ?g and build = sort_game]
  have "map_callback sort_game ?g =
        Inr \<lparr>game_id = first_truthy [get_prop ?g ''id''] (get_prop ?g ''universeId''),
             game_name = get_prop ?g ''name'',
             creator = first_truthy [opt_prop (get_prop ?g ''creator'') ''name'']
                         (JStr ''Unknown''),
             thumbnail = first_truthy [get_prop ?g ''iconUrl''] JNull,
             playing = first_truthy [get_prop ?g ''playing''] JNull,
             visits = first_truthy [get_prop ?g ''visits''] JNull\<rparr>"
    and a2: "thumbnail (list_game ?g) = JNull"
    and a3: "creator (sort_game ?g) \<noteq> JUndefined"
    by blast+
  then have a1: "map_callback sort_game ?g =
     Inr \<lparr>game_id = JNum 3, game_name = JStr ''Three'', creator = JStr ''Unknown'',
          thumbnail = JNull, playing = JNull, visits = JNull\<rparr>"
    by (simp add: opt_prop_def)
  from h5 h6 h7 h8
    normalization_fields [where g = JNull and build = list_game and gs = ?gs and r = ?r
      and up = up_null and q = "[]" and limit = 25 and games = "[]"]
  have b1: "map_games list_game ?gs = Inl TypeError"
    and b2: "fst (strategy1 up_null [] 25 []) = []"
    by blast+
  from a1 a2 a3 b1 b2 show ?thesis
    by (simp only: simp_thms)
qed



end
